theory Spec2Isabelle
  imports Main
begin

section \<open>The call gateway of the tutoring server\<close>

text \<open>
  The class \<open>CallGateway\<close> relays call signalling between browser peers. It owns one
  field, \<open>socketList\<close>, a table from connection id to the caller's name and media flags,
  and talks to the transport through the injected \<open>server\<close> object and the \<open>client\<close>
  socket of the event it handles. Each handler becomes a function from the state before
  the event to the state after it; a message handed to the transport is appended to an
  outbox, one entry for each connection it is delivered to.
\<close>

subsection \<open>Data\<close>

type_synonym socket_id = string

text \<open>The negotiation payload (\<open>signal: any\<close>) is forwarded unread; its text stands for it.\<close>

type_synonym signal = string

record presence =
  userName :: string
  video :: bool
  audio :: bool

text \<open>
  The outbound events, one constructor for each event name and payload shape that the
  gateway emits. \<open>FE-error-user-exist\<close> is sent with two shapes, \<open>{ error }\<close> by the
  name check and \<open>{ err: true }\<close> by the failure branch of join-room. The entries of
  \<open>FE-user-join\<close> are \<open>{ userId, info }\<close> with \<open>info\<close> the table entry of that id, which
  is \<open>undefined\<close> (here \<open>None\<close>) for an id the table does not hold.
\<close>

datatype out_event =
    FE_error_user_exist bool
  | FE_error_user_exist_err bool
  | FE_user_join "(socket_id \<times> presence option) list"
  | FE_receive_call signal string "presence option"
  | FE_call_accepted signal socket_id
  | FE_receive_message string string
  | FE_user_leave socket_id "socket_id list"
  | FE_toggle_camera socket_id string

text \<open>
  What a handler can fail with: the \<open>TypeError\<close> of reading a property of
  \<open>undefined\<close>, and a rejected promise of the transport.
\<close>

datatype error = TypeError | AdapterError

record gateway =
  socketList :: "socket_id \<rightharpoonup> presence"
  sockets :: "socket_id list"
  rooms :: "string \<Rightarrow> socket_id list"
  outbox :: "(socket_id \<times> out_event) list"

definition init_gateway :: gateway where
  "init_gateway = \<lparr>socketList = Map.empty, sockets = [], rooms = (\<lambda>room. []), outbox = []\<rparr>"

subsection \<open>The transport\<close>

text \<open>
  The transport is the socket.io server, a library the gateway imports, so none of it is
  among the sources; each definition of this subsection stands for one of its calls. The
  fields \<open>sockets\<close> (the live connections) and \<open>rooms\<close> (the members of each group, in
  joining order) hold its state.
\<close>

text \<open>
  Modelled from the spec: the member set of a group is a set, so a connection appears in
  it once; adding a connection that is a member already changes nothing.
\<close>

definition set_add :: "'a list \<Rightarrow> 'a \<Rightarrow> 'a list" where
  "set_add xs x = (if x \<in> set xs then xs else xs @ [x])"

text \<open>
  Modelled from the spec: a connection is a live session of the transport, which gives
  it its id; it is live from the moment it opens.
\<close>

definition transport_connect :: "gateway \<Rightarrow> socket_id \<Rightarrow> gateway" where
  "transport_connect st c = st\<lparr>sockets := set_add (sockets st) c\<rparr>"

text \<open>
  Modelled from the spec: \<open>client.join(room)\<close>, group membership add. A group exists
  from its first join.
\<close>

definition socket_join :: "gateway \<Rightarrow> socket_id \<Rightarrow> string \<Rightarrow> gateway" where
  "socket_join st c room = st\<lparr>rooms := (rooms st)(room := set_add (rooms st room) c)\<rparr>"

text \<open>Modelled from the spec: \<open>socket.leave(room)\<close>, group membership remove.\<close>

definition socket_leave :: "gateway \<Rightarrow> socket_id \<Rightarrow> string \<Rightarrow> gateway" where
  "socket_leave st c room = st\<lparr>rooms := (rooms st)(room := removeAll c (rooms st room))\<rparr>"

text \<open>
  Modelled from the spec: unicast send to one connection and broadcast to a named group.
  The source reaches both through the same call, \<open>this.server.to(name)\<close>, with a
  connection id in \<open>handleCallUser\<close> and \<open>handleAcceptCall\<close> and with a room id in the
  other handlers. So a name resolves to the live connection of that id, if there is one,
  followed by the members of the group of that name; a name that is neither resolves to
  nobody, and what is sent to it is dropped.
\<close>

definition server_to :: "gateway \<Rightarrow> string \<Rightarrow> socket_id list" where
  "server_to st name =
     (if name \<in> set (sockets st) then name # removeAll name (rooms st name)
      else rooms st name)"

text \<open>
  Modelled from the spec: \<open>server.to(room).allSockets()\<close>, the snapshot of the ids that
  \<open>server.to(room)\<close> addresses, as a promise. The promise of the transport modelled here
  always resolves; the result is a sum so that the handlers keep the branch the source
  has for a rejected promise.
\<close>

definition allSockets :: "gateway \<Rightarrow> string \<Rightarrow> error + socket_id list" where
  "allSockets st room = Inr (server_to st room)"

text \<open>
  Modelled from the spec: sending is asynchronous and waits for no acknowledgement; the
  outbox records one delivery for each recipient.
\<close>

definition emit_to :: "gateway \<Rightarrow> socket_id list \<Rightarrow> out_event \<Rightarrow> gateway" where
  "emit_to st recipients ev = st\<lparr>outbox := outbox st @ map (\<lambda>c. (c, ev)) recipients\<rparr>"

text \<open>
  Modelled from the spec: \<open>this.server.to(name).emit(ev)\<close>, to every connection the name
  resolves to, the sender included.
\<close>

definition server_to_emit :: "gateway \<Rightarrow> string \<Rightarrow> out_event \<Rightarrow> gateway" where
  "server_to_emit st name ev = emit_to st (server_to st name) ev"

text \<open>
  Modelled from the spec: \<open>client.broadcast.to(name).emit(ev)\<close>, to the same connections
  without the client.
\<close>

definition broadcast_to_emit :: "gateway \<Rightarrow> socket_id \<Rightarrow> string \<Rightarrow> out_event \<Rightarrow> gateway" where
  "broadcast_to_emit st client name ev = emit_to st (removeAll client (server_to st name)) ev"

text \<open>Modelled from the spec: \<open>client.emit(ev)\<close>, to the client alone.\<close>

definition client_emit :: "gateway \<Rightarrow> socket_id \<Rightarrow> out_event \<Rightarrow> gateway" where
  "client_emit st client ev = emit_to st [client] ev"

text \<open>
  Modelled from the spec: the disconnect of a connection. The transport forgets a closed
  connection: it is no longer live and it is a member of no group.
\<close>

definition transport_disconnect :: "gateway \<Rightarrow> socket_id \<Rightarrow> gateway" where
  "transport_disconnect st c =
     st\<lparr>sockets := removeAll c (sockets st), rooms := (\<lambda>room. removeAll c (rooms st room))\<rparr>"

text \<open>
  \<open>handleLeaveRoom\<close> reads the transport's table of sockets with a property access,
  \<open>this.server.sockets.sockets[leaverId]\<close>. The gateway obtains the members of a room
  as \<open>await this.server.to(room).allSockets()\<close>, a promise of a \<open>Set\<close>; the transport
  offers that call in the versions in which the table \<open>sockets\<close> of a namespace is a
  JavaScript \<open>Map\<close>, read with \<open>get\<close>. A \<open>Map\<close> keeps its entries apart from its
  properties, so the property access under a connection id finds nothing in any state:
  the value is \<open>undefined\<close>, here \<open>None\<close>.
\<close>

definition sockets_property :: "gateway \<Rightarrow> string \<Rightarrow> socket_id option" where
  "sockets_property st key = None"

text \<open>
  The member set of a room as the gateway can observe it: what
  \<open>server.to(room).allSockets()\<close> yields.
\<close>

definition membersOf :: "gateway \<Rightarrow> string \<Rightarrow> socket_id list" where
  "membersOf st room = server_to st room"

subsection \<open>The handlers\<close>

text \<open>\<open>handleConnection\<close> writes a log line.\<close>

definition handleConnection :: "gateway \<Rightarrow> socket_id \<Rightarrow> gateway" where
  "handleConnection st client = st"

text \<open>
  \<open>BE-check-user\<close>. The loop sets \<open>error\<close> when the entry of a member carries the asked
  name; \<open>this.socketList[client]?.userName\<close> is \<open>undefined\<close> for a member without
  entry, which \<open>===\<close> tells apart from every string. The promise has no rejection
  handler, so a rejected promise emits nothing.
\<close>

definition name_matches :: "gateway \<Rightarrow> string \<Rightarrow> socket_id \<Rightarrow> bool" where
  "name_matches st name c =
     (case socketList st c of None \<Rightarrow> False | Some p \<Rightarrow> userName p = name)"

definition handleCheckUser :: "gateway \<Rightarrow> socket_id \<Rightarrow> string \<Rightarrow> string \<Rightarrow> gateway" where
  "handleCheckUser st client roomId name =
     (case allSockets st roomId of
        Inl e \<Rightarrow> st
      | Inr clients \<Rightarrow>
          client_emit st client
            (FE_error_user_exist
               (fold (\<lambda>c err. if name_matches st name c then True else err) clients False)))"

text \<open>
  \<open>BE-join-room\<close>. The join and the table entry come before the \<open>try\<close>; the member list
  is read after both. The \<open>catch\<close> branch answers the client alone.
\<close>

definition handleJoinRoom :: "gateway \<Rightarrow> socket_id \<Rightarrow> string \<Rightarrow> string \<Rightarrow> gateway" where
  "handleJoinRoom st client roomId name =
     (let st1 = socket_join st client roomId;
          st2 = st1\<lparr>socketList := (socketList st1)
                  (client \<mapsto> \<lparr>userName = name, video = True, audio = True\<rparr>)\<rparr>
      in case allSockets st2 roomId of
           Inl e \<Rightarrow> client_emit st2 client (FE_error_user_exist_err True)
         | Inr clients \<Rightarrow>
             broadcast_to_emit st2 client roomId
               (FE_user_join (map (\<lambda>clientId. (clientId, socketList st2 clientId)) clients)))"

text \<open>\<open>BE-call-user\<close>: \<open>from\<close> is the payload's field, \<open>info\<close> the entry of the client.\<close>

definition handleCallUser ::
  "gateway \<Rightarrow> socket_id \<Rightarrow> string \<Rightarrow> string \<Rightarrow> signal \<Rightarrow> gateway" where
  "handleCallUser st client userToCall from_field sig =
     server_to_emit st userToCall (FE_receive_call sig from_field (socketList st client))"

text \<open>\<open>BE-accept-call\<close>: \<open>answerId\<close> is the id of the client.\<close>

definition handleAcceptCall :: "gateway \<Rightarrow> socket_id \<Rightarrow> signal \<Rightarrow> string \<Rightarrow> gateway" where
  "handleAcceptCall st client sig to = server_to_emit st to (FE_call_accepted sig client)"

text \<open>\<open>BE-send-message\<close>.\<close>

definition handleSendMessage ::
  "gateway \<Rightarrow> socket_id \<Rightarrow> string \<Rightarrow> string \<Rightarrow> string \<Rightarrow> gateway" where
  "handleSendMessage st client roomId msg sender =
     server_to_emit st roomId (FE_receive_message msg sender)"

text \<open>
  \<open>BE-leave-room\<close>: the entry is deleted, the others are told, and the socket found in
  the transport's table, if one is found, leaves the room.
\<close>

definition handleLeaveRoom :: "gateway \<Rightarrow> socket_id \<Rightarrow> string \<Rightarrow> gateway" where
  "handleLeaveRoom st client roomId =
     (let leaverId = client;
          st1 = st\<lparr>socketList := (socketList st)(leaverId := None)\<rparr>;
          st2 = broadcast_to_emit st1 client roomId (FE_user_leave leaverId [leaverId])
      in case sockets_property st2 leaverId of
           None \<Rightarrow> st2
         | Some socketRoom \<Rightarrow> socket_leave st2 socketRoom roomId)"

text \<open>
  \<open>BE-toggle-camera-audio\<close>. Both branches read a field of
  \<open>this.socketList[client.id]\<close> without a test; on a missing entry that read throws a
  \<open>TypeError\<close> before anything is written or sent. Every target other than
  \<open>'video'\<close> flips the audio flag.
\<close>

definition handleToggleCameraAudio ::
  "gateway \<Rightarrow> socket_id \<Rightarrow> string \<Rightarrow> string \<Rightarrow> error + gateway" where
  "handleToggleCameraAudio st client roomId switchTarget =
     (case socketList st client of
        None \<Rightarrow> Inl TypeError
      | Some p \<Rightarrow>
          (let p' = (if switchTarget = ''video'' then p\<lparr>video := \<not> video p\<rparr>
                     else p\<lparr>audio := \<not> audio p\<rparr>);
               st1 = st\<lparr>socketList := (socketList st)(client \<mapsto> p')\<rparr>
           in Inr (broadcast_to_emit st1 client roomId (FE_toggle_camera client switchTarget))))"

text \<open>
  Modelled from the spec: on-disconnect is triggered by the transport, not by an event of
  the protocol. The class implements \<open>OnGatewayConnection\<close> alone: it has no method
  for the disconnect notification and no other code of it runs then. What happens on a
  disconnect is what the transport does by itself.
\<close>

definition on_disconnect :: "gateway \<Rightarrow> socket_id \<Rightarrow> gateway" where
  "on_disconnect st c = transport_disconnect st c"

subsection \<open>Events and reachable states\<close>

text \<open>
  The gateway is driven by the transport: a connection opens, sends the events the
  handlers subscribe to, and closes. An exception thrown by a handler ends that handler;
  the state is the one the handler had reached, which for \<open>handleToggleCameraAudio\<close> is
  the state before the event.
\<close>

datatype event =
    Connect socket_id
  | Disconnect socket_id
  | CheckUser socket_id string string
  | JoinRoom socket_id string string
  | CallUser socket_id string string signal
  | AcceptCall socket_id signal string
  | SendMessage socket_id string string string
  | LeaveRoom socket_id string
  | ToggleCameraAudio socket_id string string

fun dispatch :: "gateway \<Rightarrow> event \<Rightarrow> gateway" where
  "dispatch st (Connect c) = handleConnection (transport_connect st c) c"
| "dispatch st (Disconnect c) = on_disconnect st c"
| "dispatch st (CheckUser c roomId name) = handleCheckUser st c roomId name"
| "dispatch st (JoinRoom c roomId name) = handleJoinRoom st c roomId name"
| "dispatch st (CallUser c userToCall from_field sig) =
     handleCallUser st c userToCall from_field sig"
| "dispatch st (AcceptCall c sig to) = handleAcceptCall st c sig to"
| "dispatch st (SendMessage c roomId msg sender) = handleSendMessage st c roomId msg sender"
| "dispatch st (LeaveRoom c roomId) = handleLeaveRoom st c roomId"
| "dispatch st (ToggleCameraAudio c roomId switchTarget) =
     (case handleToggleCameraAudio st c roomId switchTarget of
        Inl e \<Rightarrow> st
      | Inr st' \<Rightarrow> st')"

text \<open>
  The transport issues a connection id once: a connection that opens is not live and the
  table has no entry under its id. Every other event comes from a live connection.
\<close>

fun enabled :: "gateway \<Rightarrow> event \<Rightarrow> bool" where
  "enabled st (Connect c) = (c \<notin> set (sockets st) \<and> socketList st c = None)"
| "enabled st (Disconnect c) = (c \<in> set (sockets st))"
| "enabled st (CheckUser c roomId name) = (c \<in> set (sockets st))"
| "enabled st (JoinRoom c roomId name) = (c \<in> set (sockets st))"
| "enabled st (CallUser c userToCall from_field sig) = (c \<in> set (sockets st))"
| "enabled st (AcceptCall c sig to) = (c \<in> set (sockets st))"
| "enabled st (SendMessage c roomId msg sender) = (c \<in> set (sockets st))"
| "enabled st (LeaveRoom c roomId) = (c \<in> set (sockets st))"
| "enabled st (ToggleCameraAudio c roomId switchTarget) = (c \<in> set (sockets st))"

inductive reachable :: "gateway \<Rightarrow> bool" where
  reachable_init: "reachable init_gateway"
| reachable_step: "reachable st \<Longrightarrow> enabled st e \<Longrightarrow> reachable (dispatch st e)"

fun run :: "gateway \<Rightarrow> event list \<Rightarrow> gateway" where
  "run st [] = st"
| "run st (e # es) = run (dispatch st e) es"

fun admissible :: "gateway \<Rightarrow> event list \<Rightarrow> bool" where
  "admissible st [] = True"
| "admissible st (e # es) = (enabled st e \<and> admissible (dispatch st e) es)"

text \<open>
  The invariant as the spec words it: a connection has an entry in the table exactly
  when it is a member of exactly one room.
\<close>

definition presence_iff_one_room :: "gateway \<Rightarrow> bool" where
  "presence_iff_one_room st =
     (\<forall>c. (socketList st c \<noteq> None) = (\<exists>!room. c \<in> set (rooms st room)))"

text \<open>
  The invariant the handlers keep: a live connection with an entry is in a room. The
  rooms of a connection are the groups it has joined, the table \<open>rooms\<close>; as a name for
  \<open>server.to\<close>, its own id reaches it as well.
\<close>

definition presence_has_room :: "gateway \<Rightarrow> bool" where
  "presence_has_room st =
     (\<forall>c. c \<in> set (sockets st) \<longrightarrow> socketList st c \<noteq> None \<longrightarrow>
          (\<exists>room. c \<in> set (rooms st room)))"

subsection \<open>Example sessions\<close>

text \<open>Connection A opens and joins room R1 as alice.\<close>

definition session_A_joined :: gateway where
  "session_A_joined = run init_gateway [Connect ''A'', JoinRoom ''A'' ''R1'' ''alice'']"

text \<open>A and B are in room R1 as alice and bob; C is connected and in no room.\<close>

definition session_AB_joined :: gateway where
  "session_AB_joined =
     run init_gateway
       [Connect ''A'', Connect ''B'', Connect ''C'',
        JoinRoom ''A'' ''R1'' ''alice'', JoinRoom ''B'' ''R1'' ''bob'']"

text \<open>A joins room R1 and then room R2.\<close>

definition session_two_rooms :: gateway where
  "session_two_rooms =
     run init_gateway
       [Connect ''A'', JoinRoom ''A'' ''R1'' ''alice'', JoinRoom ''A'' ''R2'' ''alice'']"

text \<open>A joins room R1 and then sends leave-room for room R2, which it never joined.\<close>

definition session_left_other :: gateway where
  "session_left_other =
     run init_gateway [Connect ''A'', JoinRoom ''A'' ''R1'' ''alice'', LeaveRoom ''A'' ''R2'']"

text \<open>A connects and joins no room.\<close>

definition session_A_connected :: gateway where
  "session_A_connected = run init_gateway [Connect ''A'']"

text \<open>A joins room R1 and its connection closes.\<close>

definition session_A_gone :: gateway where
  "session_A_gone =
     run init_gateway [Connect ''A'', JoinRoom ''A'' ''R1'' ''alice'', Disconnect ''A'']"

text \<open>
  A joins room R1 and then sends leave-room for room R2, with B connected: A is in R1
  and has no presence entry.
\<close>

definition session_A_without_presence :: gateway where
  "session_A_without_presence =
     run init_gateway
       [Connect ''A'', Connect ''B'', JoinRoom ''A'' ''R1'' ''alice'', LeaveRoom ''A'' ''R2'']"

section \<open>Properties\<close>

lemmas transport_defs =
  transport_connect_def transport_disconnect_def socket_join_def socket_leave_def
  server_to_def allSockets_def emit_to_def server_to_emit_def broadcast_to_emit_def
  client_emit_def sockets_property_def membersOf_def set_add_def

lemmas handler_defs =
  handleConnection_def handleCheckUser_def handleJoinRoom_def handleCallUser_def
  handleAcceptCall_def handleSendMessage_def handleLeaveRoom_def
  handleToggleCameraAudio_def on_disconnect_def name_matches_def

subsection \<open>Sending leaves the tables alone\<close>

lemma rooms_emit_to [simp]: "rooms (emit_to st recipients ev) = rooms st"
  by (simp add: emit_to_def)

lemma sockets_emit_to [simp]: "sockets (emit_to st recipients ev) = sockets st"
  by (simp add: emit_to_def)

lemma socketList_emit_to [simp]: "socketList (emit_to st recipients ev) = socketList st"
  by (simp add: emit_to_def)

lemma set_set_add [simp]: "set (set_add xs x) = insert x (set xs)"
  by (auto simp add: set_add_def)

subsection \<open>Reachable states\<close>

lemma reachable_run: "reachable st \<Longrightarrow> admissible st es \<Longrightarrow> reachable (run st es)"
  by (induction es arbitrary: st) (auto intro: reachable_step)

lemma reachable_session_A_joined: "reachable session_A_joined"
  unfolding session_A_joined_def
  by (rule reachable_run [OF reachable_init])
     (simp add: init_gateway_def handler_defs transport_defs Let_def)

lemma reachable_session_two_rooms: "reachable session_two_rooms"
  unfolding session_two_rooms_def
  by (rule reachable_run [OF reachable_init])
     (simp add: init_gateway_def handler_defs transport_defs Let_def)

lemma reachable_session_left_other: "reachable session_left_other"
  unfolding session_left_other_def
  by (rule reachable_run [OF reachable_init])
     (simp add: init_gateway_def handler_defs transport_defs Let_def)

lemma reachable_session_A_gone: "reachable session_A_gone"
  unfolding session_A_gone_def
  by (rule reachable_run [OF reachable_init])
     (simp add: init_gateway_def handler_defs transport_defs Let_def)

text \<open>Each event keeps the invariant \<open>presence_has_room\<close>.\<close>

lemma presence_has_room_dispatch:
  assumes inv: "presence_has_room st" and en: "enabled st e"
  shows "presence_has_room (dispatch st e)"
proof (cases e)
  case (Connect c)
  with inv en show ?thesis
    by (auto simp add: presence_has_room_def handleConnection_def transport_connect_def)
next
  case (Disconnect c)
  with inv show ?thesis
    by (simp add: presence_has_room_def on_disconnect_def transport_disconnect_def)
next
  case (CheckUser c roomId name)
  with inv show ?thesis
    by (simp add: presence_has_room_def handleCheckUser_def allSockets_def client_emit_def)
next
  case (JoinRoom c roomId name)
  have "\<exists>room. d \<in> set (rooms (handleJoinRoom st c roomId name) room)"
    if "d \<in> set (sockets st)" and "d = c \<or> socketList st d \<noteq> None" for d
  proof (cases "d = c")
    case True
    then have "d \<in> set (rooms (handleJoinRoom st c roomId name) roomId)"
      by (simp add: handleJoinRoom_def allSockets_def broadcast_to_emit_def socket_join_def
          Let_def)
    then show ?thesis ..
  next
    case False
    with that inv obtain room where "d \<in> set (rooms st room)"
      unfolding presence_has_room_def by blast
    then have "d \<in> set (rooms (handleJoinRoom st c roomId name) room)"
      by (auto simp add: handleJoinRoom_def allSockets_def broadcast_to_emit_def
          socket_join_def Let_def)
    then show ?thesis ..
  qed
  moreover have "sockets (handleJoinRoom st c roomId name) = sockets st"
    and "socketList (handleJoinRoom st c roomId name) d \<noteq> None
         \<Longrightarrow> d = c \<or> socketList st d \<noteq> None" for d
    by (simp_all add: handleJoinRoom_def allSockets_def broadcast_to_emit_def socket_join_def
        Let_def split: if_splits)
  ultimately show ?thesis
    unfolding presence_has_room_def JoinRoom dispatch.simps by metis
next
  case (CallUser c userToCall from_field sig)
  with inv show ?thesis
    by (simp add: presence_has_room_def handleCallUser_def server_to_emit_def)
next
  case (AcceptCall c sig to)
  with inv show ?thesis
    by (simp add: presence_has_room_def handleAcceptCall_def server_to_emit_def)
next
  case (SendMessage c roomId msg sender)
  with inv show ?thesis
    by (simp add: presence_has_room_def handleSendMessage_def server_to_emit_def)
next
  case (LeaveRoom c roomId)
  with inv show ?thesis
    by (simp add: presence_has_room_def handleLeaveRoom_def broadcast_to_emit_def
        sockets_property_def Let_def)
next
  case (ToggleCameraAudio c roomId switchTarget)
  with inv show ?thesis
    by (auto simp add: presence_has_room_def handleToggleCameraAudio_def broadcast_to_emit_def
        Let_def split: option.splits)
qed

subsection \<open>Disconnect\<close>

text \<open>
  C1, as the spec states it, fails: A joins room R1 and its connection closes; the entry
  of A is still in \<open>socketList\<close>.
\<close>

theorem disconnect_keeps_presence:
  "''A'' \<in> set (membersOf session_A_joined ''R1'')
   \<and> socketList (on_disconnect session_A_joined ''A'') ''A'' \<noteq> None"
  by (simp add: session_A_joined_def init_gateway_def handler_defs transport_defs Let_def)

text \<open>
  C1, amended. After the disconnect of a connection no room has it as a member, because
  the transport drops a closed connection from every group. The gateway has no
  disconnect handler: the presence table is what it was, so an entry of the connection
  stays, and nothing is sent.
\<close>

theorem on_disconnect_effect:
  "c \<notin> set (membersOf (on_disconnect st c) room)
   \<and> socketList (on_disconnect st c) = socketList st
   \<and> outbox (on_disconnect st c) = outbox st"
  by (auto simp add: on_disconnect_def transport_disconnect_def membersOf_def server_to_def)

subsection \<open>Toggling the camera or the microphone\<close>

lemma toggle_without_presence:
  "socketList st client = None \<Longrightarrow>
   handleToggleCameraAudio st client roomId switchTarget = Inl TypeError"
  by (simp add: handleToggleCameraAudio_def)

text \<open>
  C2 says that a toggle from a connection without presence entry completes silently.
  The handler reads \<open>this.socketList[client.id].video\<close> without a test: for connection
  A, which is connected and never joined, it throws a \<open>TypeError\<close>.
\<close>

theorem toggle_without_presence_throws:
  "socketList session_A_connected ''A'' = None
   \<and> handleToggleCameraAudio session_A_connected ''A'' ''R1'' ''video'' = Inl TypeError
   \<and> handleToggleCameraAudio session_A_connected ''A'' ''R1'' ''audio'' = Inl TypeError"
  by (simp add: session_A_connected_def init_gateway_def handler_defs transport_defs Let_def)

subsection \<open>Presence and membership\<close>

text \<open>
  C3, as the spec states it, fails in reachable states. After a second join-room for
  another room, A has an entry and is a member of two rooms. After a leave-room that
  names a room A is not in, A has no entry and is a member of the room it joined. After
  its connection has closed, A has an entry and is a member of no room.
\<close>

theorem presence_iff_one_room_fails:
  "reachable session_two_rooms
   \<and> socketList session_two_rooms ''A'' \<noteq> None
   \<and> ''A'' \<in> set (rooms session_two_rooms ''R1'')
   \<and> ''A'' \<in> set (rooms session_two_rooms ''R2'')
   \<and> \<not> presence_iff_one_room session_two_rooms
   \<and> reachable session_left_other
   \<and> socketList session_left_other ''A'' = None
   \<and> ''A'' \<in> set (rooms session_left_other ''R1'')
   \<and> reachable session_A_gone
   \<and> socketList session_A_gone ''A'' \<noteq> None
   \<and> (\<forall>room. ''A'' \<notin> set (rooms session_A_gone room))"
proof -
  have p: "socketList session_two_rooms ''A'' \<noteq> None"
    and r1: "''A'' \<in> set (rooms session_two_rooms ''R1'')"
    and r2: "''A'' \<in> set (rooms session_two_rooms ''R2'')"
    by (simp_all add: session_two_rooms_def session_left_other_def session_A_gone_def init_gateway_def handler_defs transport_defs Let_def)
  have "\<not> (\<exists>!room. ''A'' \<in> set (rooms session_two_rooms room))"
    using r1 r2 by auto
  with p have "\<not> presence_iff_one_room session_two_rooms"
    unfolding presence_iff_one_room_def by blast
  moreover have "socketList session_left_other ''A'' = None"
    and "''A'' \<in> set (rooms session_left_other ''R1'')"
    by (simp_all add: session_two_rooms_def session_left_other_def session_A_gone_def init_gateway_def handler_defs transport_defs Let_def)
  moreover have "socketList session_A_gone ''A'' \<noteq> None"
    and "\<forall>room. ''A'' \<notin> set (rooms session_A_gone room)"
    by (simp_all add: session_two_rooms_def session_left_other_def session_A_gone_def init_gateway_def handler_defs transport_defs Let_def)
  ultimately show ?thesis
    using p r1 r2 reachable_session_two_rooms reachable_session_left_other
      reachable_session_A_gone
    by simp
qed

text \<open>
  C3, amended. In every reachable state a live connection that has a presence entry is
  a member of at least one room; the connect and disconnect of the transport and every
  handler of the gateway keep this. Reachable states are those that come from the empty
  gateway by events of live connections, where an id is given to one connection only.
\<close>

theorem reachable_presence_has_room:
  assumes "reachable st"
  shows "presence_has_room st"
  using assms
proof (induction rule: reachable.induct)
  case reachable_init
  show ?case by (simp add: presence_has_room_def init_gateway_def)
next
  case (reachable_step st e)
  then show ?case by (simp add: presence_has_room_dispatch)
qed

theorem reachable_presence_has_room_witness:
  "reachable session_A_joined \<and> presence_has_room session_A_joined
   \<and> ''A'' \<in> set (sockets session_A_joined) \<and> socketList session_A_joined ''A'' \<noteq> None"
  using reachable_presence_has_room [OF reachable_session_A_joined] reachable_session_A_joined
  by (simp add: session_A_joined_def init_gateway_def handler_defs transport_defs Let_def)

subsection \<open>Leaving a room\<close>

text \<open>
  In every state \<open>handleLeaveRoom\<close> deletes the entry of the client and leaves the rooms
  as they are.
\<close>

lemma leave_room_effect:
  "socketList (handleLeaveRoom st client roomId) = (socketList st)(client := None)
   \<and> rooms (handleLeaveRoom st client roomId) = rooms st"
  by (simp add: handleLeaveRoom_def broadcast_to_emit_def sockets_property_def Let_def)

text \<open>
  C4 says that after leave-room the room does not hold the connection and its presence
  is gone. A joins room R1 and leaves it: the entry is deleted, and A is still a member
  of R1, because the socket that should leave is looked up with a property access that
  finds nothing.
\<close>

theorem leave_room_keeps_member:
  "socketList (handleLeaveRoom session_A_joined ''A'' ''R1'') ''A'' = None
   \<and> ''A'' \<in> set (membersOf (handleLeaveRoom session_A_joined ''A'' ''R1'') ''R1'')"
  by (simp add: session_A_joined_def init_gateway_def handler_defs transport_defs Let_def)

subsection \<open>Joining a room\<close>

lemma reachable_session_A_without_presence: "reachable session_A_without_presence"
  unfolding session_A_without_presence_def
  by (rule reachable_run [OF reachable_init])
     (simp add: init_gateway_def handler_defs transport_defs Let_def)

text \<open>
  C5, as the spec states it, fails: not every entry of the member list carries a
  presence. A is in room R1 and has no presence entry, since its leave-room for another
  room deleted it; B joins R1, and the list that A receives has the entry of A with
  \<open>info\<close> undefined.
\<close>

theorem join_list_entry_without_presence:
  "reachable session_A_without_presence
   \<and> ''A'' \<in> set (membersOf session_A_without_presence ''R1'')
   \<and> socketList session_A_without_presence ''A'' = None
   \<and> outbox (handleJoinRoom session_A_without_presence ''B'' ''R1'' ''bob'')
     = outbox session_A_without_presence @
        [(''A'', FE_user_join
                  [(''A'', None),
                   (''B'', Some \<lparr>userName = ''bob'', video = True, audio = True\<rparr>)])]"
  using reachable_session_A_without_presence
  by (simp add: session_A_without_presence_def init_gateway_def handler_defs transport_defs
      Let_def)

text \<open>
  C5, amended. join-room adds the connection to the room, writes its presence with both
  flags on, and sends the member list read after the join to every member of the room
  but the joiner. Every entry of the list is the id of a member with what the presence
  table holds for that id, which is nothing for a member without entry; the joiner is in
  the list with its new presence.
\<close>

theorem join_room_effect:
  fixes st client roomId name
  defines "st' \<equiv> handleJoinRoom st client roomId name"
  shows "rooms st' roomId = set_add (rooms st roomId) client
    \<and> client \<in> set (membersOf st' roomId)
    \<and> socketList st' =
        (socketList st)(client \<mapsto> \<lparr>userName = name, video = True, audio = True\<rparr>)
    \<and> outbox st' = outbox st @
        map (\<lambda>member.
               (member, FE_user_join (map (\<lambda>c. (c, socketList st' c)) (membersOf st' roomId))))
          (removeAll client (membersOf st' roomId))
    \<and> (client, Some \<lparr>userName = name, video = True, audio = True\<rparr>)
        \<in> set (map (\<lambda>c. (c, socketList st' c)) (membersOf st' roomId))"
  unfolding st'_def
  by (auto simp add: handleJoinRoom_def membersOf_def server_to_def allSockets_def
      broadcast_to_emit_def emit_to_def socket_join_def Let_def)

text \<open>
  C8. Joining a room a second time with the same connection leaves the member set of
  the room at the size it had after the first join.
\<close>

theorem join_room_twice_same_size:
  "length (membersOf (handleJoinRoom (handleJoinRoom st client roomId name) client roomId name')
             roomId)
   = length (membersOf (handleJoinRoom st client roomId name) roomId)"
  by (simp add: handleJoinRoom_def membersOf_def server_to_def allSockets_def
      broadcast_to_emit_def emit_to_def socket_join_def set_add_def Let_def)

subsection \<open>Checking a name\<close>

lemma fold_flag:
  "fold (\<lambda>c err. if P c then True else err) xs b = (b \<or> (\<exists>c \<in> set xs. P c))"
  by (induction xs arbitrary: b) auto

lemma name_matches_iff:
  "name_matches st name c = (\<exists>p. socketList st c = Some p \<and> userName p = name)"
  by (simp add: name_matches_def split: option.splits)

text \<open>
  C6. check-name-in-use changes nothing but the outbox, where it adds one answer, to the
  asking connection: the flag that is true exactly when a member of the room has a
  presence entry whose name is the asked name, character for character.
\<close>

theorem check_user_result:
  "handleCheckUser st client roomId name =
     st\<lparr>outbox := outbox st @
        [(client, FE_error_user_exist
            (\<exists>c \<in> set (membersOf st roomId).
               \<exists>p. socketList st c = Some p \<and> userName p = name))]\<rparr>"
  by (simp add: handleCheckUser_def allSockets_def membersOf_def client_emit_def emit_to_def
      fold_flag name_matches_iff)

text \<open>
  The scenario of the spec: with alice and bob in R1, the third connection C is told
  that alice is in use and that carol is not; a name that differs in case is not in use.
\<close>

theorem check_user_scenario:
  "outbox (handleCheckUser session_AB_joined ''C'' ''R1'' ''alice'')
     = outbox session_AB_joined @ [(''C'', FE_error_user_exist True)]
   \<and> outbox (handleCheckUser session_AB_joined ''C'' ''R1'' ''carol'')
     = outbox session_AB_joined @ [(''C'', FE_error_user_exist False)]
   \<and> outbox (handleCheckUser session_AB_joined ''C'' ''R1'' ''Alice'')
     = outbox session_AB_joined @ [(''C'', FE_error_user_exist False)]"
  using check_user_result [of session_AB_joined "''C''" "''R1''" "''alice''"]
    check_user_result [of session_AB_joined "''C''" "''R1''" "''carol''"]
    check_user_result [of session_AB_joined "''C''" "''R1''" "''Alice''"]
  by (simp add: session_AB_joined_def init_gateway_def handler_defs transport_defs Let_def)

subsection \<open>Relays\<close>

text \<open>
  C7, as the spec states it, fails: R1 is no live connection, it is the room of A and B,
  and a call-user or accept-call from A with R1 as its target is delivered to A and B.
\<close>

theorem relay_to_room_name_delivers:
  "''R1'' \<notin> set (sockets session_AB_joined)
   \<and> outbox (handleCallUser session_AB_joined ''A'' ''R1'' ''A'' ''offer'')
       = outbox session_AB_joined @
         [(''A'', FE_receive_call ''offer'' ''A'' (socketList session_AB_joined ''A'')),
          (''B'', FE_receive_call ''offer'' ''A'' (socketList session_AB_joined ''A''))]
   \<and> outbox (handleAcceptCall session_AB_joined ''A'' ''answer'' ''R1'')
       = outbox session_AB_joined @
         [(''A'', FE_call_accepted ''answer'' ''A''), (''B'', FE_call_accepted ''answer'' ''A'')]"
  by (simp add: session_AB_joined_def init_gateway_def handler_defs transport_defs Let_def)

text \<open>
  C7, amended. When the target of a call-user or accept-call event names neither a live
  connection nor a room that has members, the relay is a no-op: the state after the
  handler is the state before it, with nothing sent to the sender or to anyone else.
\<close>

theorem relay_to_nobody_noop:
  assumes "target \<notin> set (sockets st)" and "rooms st target = []"
  shows "handleCallUser st client target from_field sig = st
    \<and> handleAcceptCall st client sig target = st"
  using assms
  by (simp add: handleCallUser_def handleAcceptCall_def server_to_emit_def server_to_def
      emit_to_def)

theorem relay_to_nobody_noop_witness:
  "''Z'' \<notin> set (sockets session_AB_joined) \<and> rooms session_AB_joined ''Z'' = []
   \<and> handleCallUser session_AB_joined ''A'' ''Z'' ''A'' ''offer'' = session_AB_joined
   \<and> handleAcceptCall session_AB_joined ''A'' ''answer'' ''Z'' = session_AB_joined"
proof -
  have live: "''Z'' \<notin> set (sockets session_AB_joined)"
    by (simp add: session_AB_joined_def init_gateway_def handler_defs transport_defs Let_def)
  have room: "rooms session_AB_joined ''Z'' = []"
    by (simp add: session_AB_joined_def init_gateway_def handler_defs transport_defs Let_def)
  from relay_to_nobody_noop [OF live room] live room show ?thesis by simp
qed

text \<open>
  C9. The \<open>from\<close> of the delivered call is the field of the payload, whatever the id of
  the sender is, and the presence sent with it is the entry of the sender. When A sends
  a call to C with B in the \<open>from\<close> field, C receives a call from B that carries the
  presence of A, which is not the presence of B.
\<close>

theorem call_user_from_field_unbound:
  "outbox (handleCallUser st client userToCall from_field sig)
     = outbox st @ map (\<lambda>c. (c, FE_receive_call sig from_field (socketList st client)))
                     (server_to st userToCall)
   \<and> outbox (handleCallUser session_AB_joined ''A'' ''C'' ''B'' ''offer'')
     = outbox session_AB_joined @
        [(''C'', FE_receive_call ''offer'' ''B''
                  (Some \<lparr>userName = ''alice'', video = True, audio = True\<rparr>))]
   \<and> socketList session_AB_joined ''A''
     = Some \<lparr>userName = ''alice'', video = True, audio = True\<rparr>
   \<and> socketList session_AB_joined ''B''
     = Some \<lparr>userName = ''bob'', video = True, audio = True\<rparr>"
  by (simp add: session_AB_joined_def init_gateway_def handler_defs transport_defs Let_def)

subsection \<open>Room messages\<close>

text \<open>
  C10. send-room-message delivers the text and the sender label to every member of the
  room and changes nothing else. The sending connection does not occur in the result:
  whether it is a member of the room or has a presence entry is not looked at.
\<close>

theorem send_message_reaches_members:
  "handleSendMessage st client roomId msg sender =
     st\<lparr>outbox := outbox st @
        map (\<lambda>member. (member, FE_receive_message msg sender)) (membersOf st roomId)\<rparr>"
  by (simp add: handleSendMessage_def server_to_emit_def emit_to_def membersOf_def)

text \<open>
  C, which is in no room and has no presence entry, sends a message to R1: A and B
  receive it.
\<close>

theorem send_message_from_outsider:
  "''C'' \<notin> set (membersOf session_AB_joined ''R1'')
   \<and> socketList session_AB_joined ''C'' = None
   \<and> outbox (handleSendMessage session_AB_joined ''C'' ''R1'' ''hi'' ''carol'')
     = outbox session_AB_joined @
        [(''A'', FE_receive_message ''hi'' ''carol''),
         (''B'', FE_receive_message ''hi'' ''carol'')]"
  using send_message_reaches_members [of session_AB_joined "''C''" "''R1''" "''hi''" "''carol''"]
  by (simp add: session_AB_joined_def init_gateway_def handler_defs transport_defs Let_def)

end
